theory Spec2Isabelle
  imports Main
begin

unbundle bit_operations_syntax

section \<open>Python strings\<close>

text \<open>
  A Python 3 \<open>str\<close> is a sequence of Unicode code points, so it is modelled as a list of
  natural numbers. \<open>S\<close> turns an ASCII literal of the theory into such a string; the
  double quote (34), the single quote (39) and the backslash (92) are written as numbers.
\<close>

type_synonym pystr = "nat list"

definition S :: "string \<Rightarrow> pystr" where
  "S s = map of_char s"

text \<open>\<open>s.startswith(p)\<close>, and \<open>p in s\<close> for strings.\<close>

definition startswith :: "pystr \<Rightarrow> pystr \<Rightarrow> bool" where
  "startswith s p = (take (length p) s = p)"

fun contains :: "pystr \<Rightarrow> pystr \<Rightarrow> bool" where
  "contains [] p = (p = [])"
| "contains (c # cs) p = (startswith (c # cs) p \<or> contains cs p)"

text \<open>
  One left-to-right pass that replaces every non-overlapping occurrence of a key of the
  table by the value stored with it. At each position the keys are tried in the order of
  the table and the first one that matches wins; the text put in is not scanned again.
  This is \<open>re.sub\<close> on an alternation of escaped literals with a function as
  replacement (\<open>_compile\<close>), and \<open>str.replace\<close> when the table has one entry
  (\<open>_extract_result\<close>). Every key used in the program is non-empty.
\<close>

fun first_match :: "(pystr \<times> pystr) list \<Rightarrow> pystr \<Rightarrow> (pystr \<times> pystr) option" where
  "first_match [] s = None"
| "first_match ((k, v) # kvs) s =
     (if k \<noteq> [] \<and> startswith s k then Some (k, v) else first_match kvs s)"

function sub_all :: "(pystr \<times> pystr) list \<Rightarrow> pystr \<Rightarrow> pystr" where
  "sub_all kvs [] = []"
| "sub_all kvs (c # cs) =
     (case first_match kvs (c # cs) of
        Some (k, v) \<Rightarrow> v @ sub_all kvs (drop (length k - 1) cs)
      | None \<Rightarrow> c # sub_all kvs cs)"
  by pat_completeness auto
termination
  by (relation "measure (\<lambda>(kvs, s). length s)") auto

definition py_replace :: "pystr \<Rightarrow> pystr \<Rightarrow> pystr \<Rightarrow> pystr" where
  "py_replace s old new = sub_all [(old, new)] s"

section \<open>\<open>json.dumps\<close> of a string, with \<open>ensure_ascii=True\<close>\<close>

text \<open>
  The standard library's \<open>py_encode_basestring_ascii\<close>: the pattern
  \<open>([\\"]|[^\ -~])\<close> selects the backslash, the double quote and every character
  outside the range from space to tilde; a selected character is looked up in the table
  of short escapes, and otherwise written as \<open>\uXXXX\<close> with \<open>'{0:04x}'.format\<close>, a
  character beyond the basic plane as the surrogate pair
  \<open>0xd800 | ((n >> 10) & 0x3ff)\<close>, \<open>0xdc00 | (n & 0x3ff)\<close> of \<open>n = ord(s) - 0x10000\<close>.
\<close>

definition hexdigit :: "nat \<Rightarrow> nat" where
  "hexdigit d = (if d < 10 then 48 + d else 87 + d)"

fun to_hex :: "nat \<Rightarrow> pystr" where
  "to_hex n = (if n < 16 then [hexdigit n] else to_hex (n div 16) @ [hexdigit (n mod 16)])"

definition format_04x :: "nat \<Rightarrow> pystr" where
  "format_04x n = replicate (4 - length (to_hex n)) 48 @ to_hex n"

definition printable :: "nat \<Rightarrow> bool" where
  "printable c = (32 \<le> c \<and> c \<le> 126)"

definition u_escape :: "nat \<Rightarrow> pystr" where
  "u_escape n = [92, 117] @ format_04x n"

definition escape_char :: "nat \<Rightarrow> pystr" where
  "escape_char c =
     (if printable c \<and> c \<noteq> 92 \<and> c \<noteq> 34 then [c]
      else if c = 92 then [92, 92]
      else if c = 34 then [92, 34]
      else if c = 8 then [92, 98]
      else if c = 12 then [92, 102]
      else if c = 10 then [92, 110]
      else if c = 13 then [92, 114]
      else if c = 9 then [92, 116]
      else if c < 65536 then u_escape c
      else u_escape (55296 OR (drop_bit 10 (c - 65536) AND 1023))
         @ u_escape (56320 OR ((c - 65536) AND 1023)))"

definition json_dumps :: "pystr \<Rightarrow> pystr" where
  "json_dumps s = [34] @ concat (map escape_char s) @ [34]"

section \<open>The template compiler: \<open>Context._compile\<close>\<close>

text \<open>
  \<open>encode_unicode_codepoints\<close> (module \<open>execjs._misc\<close>) and the shim text returned by
  \<open>_json2._json2_source\<close> are not part of the file under study: the compiler takes them
  as the parameters \<open>euc\<close> and \<open>json2\<close>. The table keeps the order of the dictionary.
\<close>

definition encoded_source :: "(pystr \<Rightarrow> pystr) \<Rightarrow> pystr \<Rightarrow> pystr" where
  "encoded_source euc source = json_dumps (S ''(function(){ '' @ euc source @ S '' })()'')"

definition replacements :: "(pystr \<Rightarrow> pystr) \<Rightarrow> pystr \<Rightarrow> pystr \<Rightarrow> (pystr \<times> pystr) list" where
  "replacements euc json2 source =
     [(S ''#{source}'', source),
      (S ''#{encoded_source}'', encoded_source euc source),
      (S ''#{json2_source}'', json2)]"

definition Context_compile :: "(pystr \<Rightarrow> pystr) \<Rightarrow> pystr \<Rightarrow> pystr \<Rightarrow> pystr \<Rightarrow> pystr" where
  "Context_compile euc json2 runner_source source =
     sub_all (replacements euc json2 source) runner_source"


section \<open>Lines, whitespace and splitting\<close>

text \<open>
  \<open>str.splitlines()\<close>: a line ends at LF, VT, FF, CR, CR LF (one boundary), FS, GS, RS,
  NEL, LS or PS; the boundary is dropped and no empty line is added after the last one.
\<close>

definition is_linebreak :: "nat \<Rightarrow> bool" where
  "is_linebreak c = (c = 10 \<or> c = 11 \<or> c = 12 \<or> c = 13 \<or> c = 28 \<or> c = 29 \<or> c = 30
                     \<or> c = 133 \<or> c = 8232 \<or> c = 8233)"

fun splitlines :: "pystr \<Rightarrow> pystr list" where
  "splitlines [] = []"
| "splitlines (c # cs) =
     (if c = 13 then
        (case cs of
           [] \<Rightarrow> [[]]
         | d # ds \<Rightarrow> if d = 10 then [] # splitlines ds else [] # splitlines cs)
      else if is_linebreak c then [] # splitlines cs
      else (case splitlines cs of [] \<Rightarrow> [[c]] | l # ls \<Rightarrow> (c # l) # ls))"



text \<open>\<open>s.split(sep)\<close> for a separator of one character, as \<open>os.pathsep\<close> is.\<close>

fun py_split :: "nat \<Rightarrow> pystr \<Rightarrow> pystr list" where
  "py_split sep [] = [[]]"
| "py_split sep (c # cs) =
     (if c = sep then [] # py_split sep cs
      else (case py_split sep cs of [] \<Rightarrow> [[c]] | l # ls \<Rightarrow> (c # l) # ls))"

text \<open>
  The first occurrence of a pattern in a stream: the text before it and the text after it.
  This is what \<open>expect\<close> of pexpect leaves in \<open>before\<close> and in its buffer when the
  pattern has no regular-expression metacharacter, as the prompt \<open>> \<close> and the end
  marker of the program have none.
\<close>

fun find_first :: "pystr \<Rightarrow> pystr \<Rightarrow> (pystr \<times> pystr) option" where
  "find_first pat [] = (if pat = [] then Some ([], []) else None)"
| "find_first pat (c # cs) =
     (if startswith (c # cs) pat then Some ([], drop (length pat) (c # cs))
      else (case find_first pat cs of
              None \<Rightarrow> None
            | Some (b, a) \<Rightarrow> Some (c # b, a)))"

section \<open>Values and errors\<close>

text \<open>
  What \<open>json.loads\<close> returns. The decoder itself belongs to the standard library and
  is a parameter of the model (\<open>json_loads\<close> of the host, \<open>None\<close> when it raises).
\<close>

datatype json =
    JNull
  | JBool bool
  | JInt int
  | JFloat pystr
  | JString pystr
  | JArray "json list"
  | JObject "(pystr \<times> json) list"

datatype error =
    ProcessExitedWithNonZeroStatus int pystr pystr
  | ProgramError json
  | RuntimeUnavailableError
  | IndexError
  | KeyError
  | TypeError
  | ValueError
  | JSONDecodeError
  | UnicodeEncodeError
  | UnicodeDecodeError
  | OSError
  | FileExistsError
  | FileNotFoundError
  | AttributeError
  | SpawnError
  | ExpectTimeout

section \<open>The host: operating system and libraries\<close>

record completed =
  returncode :: int
  stdoutdata :: pystr
  stderrdata :: pystr

type_synonym files = "pystr \<Rightarrow> pystr option"

text \<open>
  Everything the module takes from outside: the platform and its environment, the file
  metadata read by \<open>os.stat\<close> (\<open>st_mode\<close>, \<open>None\<close> when the call raises),
  \<open>os.path.join\<close>, the candidate names of \<open>tempfile\<close>, the codecs, the engine
  processes and the two helpers of sibling modules.
  An engine process is observed through its exit status and its two output streams:
  \<open>Popen\<close> takes the argument vector, the working directory, the text for standard
  input if there is a pipe, and the files the process can read; it gives what
  \<open>communicate\<close> and \<open>wait\<close> return, or \<open>None\<close> when spawning raises. The process
  does not change the files of the model.
  \<open>startup\<close> is the output of an interactive child before any input (\<open>None\<close> when
  \<open>spawn\<close> raises) and \<open>repl\<close> its output after the latest of the submissions so far.
\<close>

record host =
  is_windows :: bool
  environ :: "pystr \<Rightarrow> pystr option"
  pathsep :: nat
  path_join :: "pystr \<Rightarrow> pystr \<Rightarrow> pystr"
  os_stat :: "pystr \<Rightarrow> nat option"
  linesep :: pystr
  tempdir :: pystr
  candidate_names :: "pystr list"
  encode :: "pystr \<Rightarrow> pystr \<Rightarrow> pystr option"
  decode :: "pystr \<Rightarrow> pystr option"
  json_loads :: "pystr \<Rightarrow> json option"
  Popen :: "pystr list \<Rightarrow> pystr option \<Rightarrow> pystr option \<Rightarrow> files \<Rightarrow> completed option"
  startup :: "pystr list \<Rightarrow> pystr option"
  repl :: "pystr list \<Rightarrow> pystr list \<Rightarrow> pystr"
  encode_unicode_codepoints :: "pystr \<Rightarrow> pystr"
  json2_source :: pystr

section \<open>The result extractor: \<open>Context._extract_result\<close>\<close>

text \<open>
  \<open>len(ret)\<close>, \<open>ret[0]\<close> and the unpacking \<open>status, value = ret\<close> on each kind of
  decoded value: a list, a string (a sequence of strings of one character), an object
  (a dictionary, whose keys are strings, so that \<open>ret[0]\<close> raises and unpacking gives
  keys), and the values that have no length.
\<close>

fun py_len :: "json \<Rightarrow> error + nat" where
  "py_len (JArray xs) = Inr (length xs)"
| "py_len (JString s) = Inr (length s)"
| "py_len (JObject kvs) = Inr (length kvs)"
| "py_len v = Inl TypeError"

fun item0 :: "json \<Rightarrow> error + json" where
  "item0 (JArray xs) = (case xs of [] \<Rightarrow> Inl IndexError | x # _ \<Rightarrow> Inr x)"
| "item0 (JString s) = (case s of [] \<Rightarrow> Inl IndexError | c # _ \<Rightarrow> Inr (JString [c]))"
| "item0 (JObject kvs) = Inl KeyError"
| "item0 v = Inl TypeError"

fun unpack2 :: "json \<Rightarrow> error + json \<times> json" where
  "unpack2 (JArray xs) = (case xs of [a, b] \<Rightarrow> Inr (a, b) | _ \<Rightarrow> Inl ValueError)"
| "unpack2 (JString s) =
     (case s of [a, b] \<Rightarrow> Inr (JString [a], JString [b]) | _ \<Rightarrow> Inl ValueError)"
| "unpack2 (JObject kvs) =
     (case kvs of [a, b] \<Rightarrow> Inr (JString (fst a), JString (fst b)) | _ \<Rightarrow> Inl ValueError)"
| "unpack2 v = Inl TypeError"

definition normalize_newlines :: "pystr \<Rightarrow> pystr" where
  "normalize_newlines output = py_replace (py_replace output [13, 10] [10]) [13] [10]"

definition result_lines :: "pystr \<Rightarrow> pystr list" where
  "result_lines output = filter (\<lambda>line. contains line [93]) (splitlines output)"

definition interpret_result :: "json \<Rightarrow> error + json" where
  "interpret_result ret0 =
     (case py_len ret0 of
        Inl e \<Rightarrow> Inl e
      | Inr n \<Rightarrow>
          (case (if n = 1
                 then (case item0 ret0 of
                         Inl e \<Rightarrow> Inl e
                       | Inr x \<Rightarrow> Inr (JArray [x, JNull]))
                 else Inr ret0) of
             Inl e \<Rightarrow> Inl e
           | Inr ret \<Rightarrow>
               (case unpack2 ret of
                  Inl e \<Rightarrow> Inl e
                | Inr (status, val) \<Rightarrow>
                    if status = JString (S ''ok'') then Inr val
                    else Inl (ProgramError val))))"

definition extract_result :: "host \<Rightarrow> pystr \<Rightarrow> error + json" where
  "extract_result h output0 =
     (let output = normalize_newlines output0;
          candidates = result_lines output
      in if candidates = [] then Inl IndexError
         else (case json_loads h (last candidates) of
                 None \<Rightarrow> Inl JSONDecodeError
               | Some ret \<Rightarrow> interpret_result ret))"

section \<open>Finding the executable: \<open>_find_executable\<close> and \<open>_which\<close>\<close>

text \<open>
  \<open>stat.S_ISREG\<close> compares the file-type bits (mask \<open>0o170000\<close>) with \<open>0o100000\<close>;
  \<open>stat.S_IMODE\<close> keeps the low twelve bits (mask \<open>0o7777\<close>), and \<open>0o111 = 73\<close>
  selects the three execute bits.
\<close>

definition S_ISREG :: "nat \<Rightarrow> bool" where
  "S_ISREG m = (m AND 61440 = 32768)"

definition S_IMODE :: "nat \<Rightarrow> nat" where
  "S_IMODE m = m AND 4095"

definition getenv :: "host \<Rightarrow> pystr \<Rightarrow> pystr \<Rightarrow> pystr" where
  "getenv h k d = (case environ h k of None \<Rightarrow> d | Some v \<Rightarrow> v)"

text \<open>The inner loop over the extensions and the outer loop over the directories.\<close>

fun try_exts :: "host \<Rightarrow> pystr \<Rightarrow> pystr \<Rightarrow> pystr list \<Rightarrow> pystr option" where
  "try_exts h dir prog [] = None"
| "try_exts h dir prog (ext # exts) =
     (let filename = path_join h dir (prog @ ext)
      in case os_stat h filename of
           None \<Rightarrow> try_exts h dir prog exts
         | Some st_mode \<Rightarrow>
             if S_ISREG st_mode \<and> S_IMODE st_mode AND 73 \<noteq> 0 then Some filename
             else try_exts h dir prog exts)"

fun try_dirs :: "host \<Rightarrow> pystr \<Rightarrow> pystr list \<Rightarrow> pystr list \<Rightarrow> pystr option" where
  "try_dirs h prog pathext [] = None"
| "try_dirs h prog pathext (dir # dirs) =
     (case try_exts h dir prog pathext of
        Some filename \<Rightarrow> Some filename
      | None \<Rightarrow> try_dirs h prog pathext dirs)"

definition find_executable :: "host \<Rightarrow> pystr \<Rightarrow> pystr list \<Rightarrow> pystr option" where
  "find_executable h prog pathext =
     try_dirs h prog pathext (py_split (pathsep h) (getenv h (S ''PATH'') []))"

definition which :: "host \<Rightarrow> pystr list \<Rightarrow> error + pystr list option" where
  "which h command =
     (case command of
        [] \<Rightarrow> Inl IndexError
      | name # args \<Rightarrow>
          (let path = (if is_windows h
                       then find_executable h name
                              (py_split (pathsep h) (getenv h (S ''PATHEXT'') []))
                       else find_executable h name [[]])
           in case path of
                None \<Rightarrow> Inr None
              | Some p \<Rightarrow> if p = [] then Inr None else Inr (Some (p # args))))"

text \<open>
  The same search in the words of the description: the first candidate, directories in
  the listed order and for each directory the extensions in order, that is a regular
  file with an execute bit.
\<close>

definition search_candidates :: "host \<Rightarrow> pystr \<Rightarrow> pystr list \<Rightarrow> pystr list \<Rightarrow> pystr list" where
  "search_candidates h prog pathext dirs =
     concat (map (\<lambda>dir. map (\<lambda>ext. path_join h dir (prog @ ext)) pathext) dirs)"

definition executable_file :: "host \<Rightarrow> pystr \<Rightarrow> bool" where
  "executable_file h filename =
     (case os_stat h filename of
        None \<Rightarrow> False
      | Some st_mode \<Rightarrow> S_ISREG st_mode \<and> S_IMODE st_mode AND 73 \<noteq> 0)"

section \<open>The runtime, its contexts and the state they act on\<close>

datatype command_arg = CommandStr pystr | CommandList "pystr list"

text \<open>
  The attributes of an \<open>ExternalRuntime\<close>. \<open>rt_session\<close> is the handle of the pexpect
  object (\<open>None\<close> as long as \<open>session()\<close> was not called); \<open>rt_binary_cache\<close> is \<open>None\<close>
  while the attribute \<open>_binary_cache\<close> does not exist.
\<close>

record ExternalRuntime =
  rt_name :: pystr
  rt_command :: "pystr list"
  rt_runner_source :: pystr
  rt_encoding :: pystr
  rt_tempfile :: bool
  rt_session :: "nat option"
  rt_prompt :: pystr
  rt_binary_cache :: "pystr list option option"
  rt_available :: bool

text \<open>
  A \<open>Context\<close>; its attribute \<open>_runtime\<close> refers to the runtime of the state.
\<close>

record Context =
  ctx_source :: pystr
  ctx_cwd :: "pystr option"
  ctx_tempfile :: bool
  ctx_session :: "nat option"

text \<open>
  An interactive child: the command it runs, the submissions sent to it so far, and the
  output it has produced that no \<open>expect\<close> has consumed yet.
\<close>

record session_state =
  child_cmd :: "pystr list"
  sent :: "pystr list"
  buffer :: pystr
  delaybeforesend :: bool

record state =
  runtime :: ExternalRuntime
  fs :: files
  sessions :: "nat \<Rightarrow> session_state"
  next_session :: nat

subsection \<open>\<open>ExternalRuntime\<close>\<close>

definition ExternalRuntime_binary ::
  "host \<Rightarrow> ExternalRuntime \<Rightarrow> (error + pystr list option) \<times> ExternalRuntime" where
  "ExternalRuntime_binary h rt =
     (case rt_binary_cache rt of
        Some b \<Rightarrow> (Inr b, rt)
      | None \<Rightarrow>
          (case which h (rt_command rt) of
             Inl e \<Rightarrow> (Inl e, rt)
           | Inr b \<Rightarrow> (Inr b, rt\<lparr>rt_binary_cache := Some b\<rparr>)))"

definition ExternalRuntime_init ::
  "host \<Rightarrow> pystr \<Rightarrow> command_arg \<Rightarrow> pystr \<Rightarrow> pystr \<Rightarrow> bool \<Rightarrow> pystr \<Rightarrow> error + ExternalRuntime" where
  "ExternalRuntime_init h name command runner_source encoding tempfile prompt =
     (let rt0 = \<lparr>rt_name = name,
                 rt_command = (case command of CommandStr c \<Rightarrow> [c] | CommandList cs \<Rightarrow> cs),
                 rt_runner_source = runner_source,
                 rt_encoding = encoding,
                 rt_tempfile = tempfile,
                 rt_session = None,
                 rt_prompt = prompt,
                 rt_binary_cache = None,
                 rt_available = False\<rparr>
      in case ExternalRuntime_binary h rt0 of
           (Inl e, rt1) \<Rightarrow> Inl e
         | (Inr b, rt1) \<Rightarrow> Inr (rt1\<lparr>rt_available := (b \<noteq> None)\<rparr>))"

definition ExternalRuntime_name :: "ExternalRuntime \<Rightarrow> pystr" where
  "ExternalRuntime_name rt = rt_name rt"


definition ExternalRuntime_compile :: "ExternalRuntime \<Rightarrow> pystr \<Rightarrow> pystr option \<Rightarrow> Context" where
  "ExternalRuntime_compile rt source cwd =
     \<lparr>ctx_source = source, ctx_cwd = cwd, ctx_tempfile = rt_tempfile rt,
      ctx_session = rt_session rt\<rparr>"

text \<open>\<open>sendline\<close> and \<open>expect\<close> of the pexpect object with handle \<open>sid\<close>.\<close>

definition sendline :: "host \<Rightarrow> nat \<Rightarrow> pystr \<Rightarrow> state \<Rightarrow> state" where
  "sendline h sid s st =
     (let ss = sessions st sid;
          sent' = sent ss @ [s @ linesep h]
      in st\<lparr>sessions := (sessions st)
              (sid := ss\<lparr>sent := sent', buffer := buffer ss @ repl h (child_cmd ss) sent'\<rparr>)\<rparr>)"

definition expect :: "nat \<Rightarrow> pystr \<Rightarrow> state \<Rightarrow> pystr option \<times> state" where
  "expect sid pat st =
     (case find_first pat (buffer (sessions st sid)) of
        None \<Rightarrow> (None, st)
      | Some (before, after) \<Rightarrow>
          (Some before,
           st\<lparr>sessions := (sessions st)(sid := (sessions st sid)\<lparr>buffer := after\<rparr>)\<rparr>))"

definition ExternalRuntime_session :: "host \<Rightarrow> state \<Rightarrow> (error + nat) \<times> state" where
  "ExternalRuntime_session h st =
     (case ExternalRuntime_binary h (runtime st) of
        (Inl e, rt1) \<Rightarrow> (Inl e, st\<lparr>runtime := rt1\<rparr>)
      | (Inr None, rt1) \<Rightarrow> (Inl SpawnError, st\<lparr>runtime := rt1\<rparr>)
      | (Inr (Some cmd), rt1) \<Rightarrow>
          (case startup h cmd of
             None \<Rightarrow> (Inl SpawnError, st\<lparr>runtime := rt1\<rparr>)
           | Some banner \<Rightarrow>
               (let sid = next_session st;
                    st1 = st\<lparr>runtime := rt1\<lparr>rt_session := Some sid\<rparr>,
                            sessions := (sessions st)
                              (sid := \<lparr>child_cmd = cmd, sent = [], buffer = banner,
                                       delaybeforesend = True\<rparr>),
                            next_session := Suc sid\<rparr>
                in case expect sid (rt_prompt rt1) st1 of
                     (None, st2) \<Rightarrow> (Inl ExpectTimeout, st2)
                   | (Some before, st2) \<Rightarrow>
                       (Inr sid,
                        st2\<lparr>sessions := (sessions st2)
                              (sid := (sessions st2 sid)\<lparr>delaybeforesend := False\<rparr>)\<rparr>))))"

subsection \<open>\<open>Context\<close>\<close>


definition compile_source :: "host \<Rightarrow> state \<Rightarrow> pystr \<Rightarrow> pystr" where
  "compile_source h st source =
     Context_compile (encode_unicode_codepoints h) (json2_source h)
       (rt_runner_source (runtime st)) source"

definition fail_on_non_zero_status :: "int \<Rightarrow> pystr \<Rightarrow> pystr \<Rightarrow> error + unit" where
  "fail_on_non_zero_status status out err =
     (if status \<noteq> 0 then Inl (ProcessExitedWithNonZeroStatus status out err) else Inr ())"

definition end_str :: pystr where
  "end_str = S ''//!!@@##''"

text \<open>
  \<open>_exec_with_session\<close>. Called on a context without session object it fails on the
  attribute access. Off Windows the bytes before the marker are decoded.
\<close>

definition Context_exec_with_session ::
  "host \<Rightarrow> Context \<Rightarrow> pystr \<Rightarrow> state \<Rightarrow> (error + pystr) \<times> state" where
  "Context_exec_with_session h ctx source st =
     (case ctx_session ctx of
        None \<Rightarrow> (Inl AttributeError, st)
      | Some sid \<Rightarrow>
          (let input = compile_source h st source;
               st1 = sendline h sid (input @ [10] @ end_str) st
           in case expect sid end_str st1 of
                (None, st2) \<Rightarrow> (Inl ExpectTimeout, st2)
              | (Some before, st2) \<Rightarrow>
                  (if is_windows h then (Inr before, st2)
                   else (case decode h before of
                           None \<Rightarrow> (Inl UnicodeDecodeError, st2)
                         | Some decoded \<Rightarrow> (Inr decoded, st2)))))"

text \<open>
  \<open>_exec_with_pipe\<close>, on Python 3. \<open>Popen(None)\<close> raises, and so does \<open>cmd[0]\<close> on an
  empty command (which \<open>_which\<close> never returns).
\<close>

definition pipe_input :: "pystr \<Rightarrow> pystr \<Rightarrow> pystr" where
  "pipe_input cmd0 input =
     (if contains cmd0 (S ''deno'') then concat (splitlines input) else input)"

definition Context_exec_with_pipe ::
  "host \<Rightarrow> Context \<Rightarrow> pystr \<Rightarrow> state \<Rightarrow> (error + pystr) \<times> state" where
  "Context_exec_with_pipe h ctx source st =
     (case ExternalRuntime_binary h (runtime st) of
        (Inl e, rt1) \<Rightarrow> (Inl e, st\<lparr>runtime := rt1\<rparr>)
      | (Inr None, rt1) \<Rightarrow> (Inl TypeError, st\<lparr>runtime := rt1\<rparr>)
      | (Inr (Some cmd), rt1) \<Rightarrow>
          (case cmd of
             [] \<Rightarrow> (Inl IndexError, st\<lparr>runtime := rt1\<rparr>)
           | cmd0 # _ \<Rightarrow>
               (let st1 = st\<lparr>runtime := rt1\<rparr>;
                    input = pipe_input cmd0 (compile_source h st1 source)
                in case Popen h cmd (ctx_cwd ctx) (Some input) (fs st1) of
                     None \<Rightarrow> (Inl OSError, st1)
                   | Some p \<Rightarrow>
                       (case fail_on_non_zero_status (returncode p) (stdoutdata p)
                               (stderrdata p) of
                          Inl e \<Rightarrow> (Inl e, st1)
                        | Inr _ \<Rightarrow> (Inr (stdoutdata p), st1)))))"

text \<open>
  \<open>tempfile.mkstemp(prefix, suffix)\<close> of the standard library: the first candidate name
  for which no file exists yet is created, empty; \<open>FileExistsError\<close> when all are taken.
\<close>

definition mkstemp :: "host \<Rightarrow> pystr \<Rightarrow> pystr \<Rightarrow> files \<Rightarrow> (pystr \<times> files) option" where
  "mkstemp h prefix suffix f =
     (case find (\<lambda>n. f (path_join h (tempdir h) (prefix @ n @ suffix)) = None)
             (candidate_names h) of
        None \<Rightarrow> None
      | Some n \<Rightarrow>
          (let file = path_join h (tempdir h) (prefix @ n @ suffix)
           in Some (file, f(file \<mapsto> []))))"

definition os_remove :: "pystr \<Rightarrow> files \<Rightarrow> files option" where
  "os_remove filename f = (if f filename = None then None else Some (f(filename := None)))"

text \<open>
  The body of the outer \<open>try\<close> of \<open>_exec_with_tempfile\<close>: opening with mode \<open>w+\<close>
  empties the file, the write stores the encoded program.
\<close>

definition tempfile_body ::
  "host \<Rightarrow> Context \<Rightarrow> pystr \<Rightarrow> pystr \<Rightarrow> state \<Rightarrow> (error + pystr) \<times> state" where
  "tempfile_body h ctx source filename st =
     (case encode h (rt_encoding (runtime st)) (compile_source h st source) of
        None \<Rightarrow> (Inl UnicodeEncodeError, st\<lparr>fs := (fs st)(filename \<mapsto> [])\<rparr>)
      | Some bytes \<Rightarrow>
          (let st1 = st\<lparr>fs := (fs st)(filename \<mapsto> bytes)\<rparr>
           in case ExternalRuntime_binary h (runtime st1) of
                (Inl e, rt1) \<Rightarrow> (Inl e, st1\<lparr>runtime := rt1\<rparr>)
              | (Inr None, rt1) \<Rightarrow> (Inl TypeError, st1\<lparr>runtime := rt1\<rparr>)
              | (Inr (Some binary), rt1) \<Rightarrow>
                  (let st2 = st1\<lparr>runtime := rt1\<rparr>;
                       cmd = binary @ [filename]
                   in case Popen h cmd (ctx_cwd ctx) None (fs st2) of
                        None \<Rightarrow> (Inl OSError, st2)
                      | Some p \<Rightarrow>
                          (case fail_on_non_zero_status (returncode p) (stdoutdata p)
                                  (stderrdata p) of
                             Inl e \<Rightarrow> (Inl e, st2)
                           | Inr _ \<Rightarrow> (Inr (stdoutdata p), st2)))))"

text \<open>
  \<open>_exec_with_tempfile\<close>: the \<open>finally\<close> clause runs \<open>os.remove\<close> after the body,
  whatever its outcome; when \<open>os.remove\<close> raises, its exception is the outcome.
\<close>

definition Context_exec_with_tempfile ::
  "host \<Rightarrow> Context \<Rightarrow> pystr \<Rightarrow> state \<Rightarrow> (error + pystr) \<times> state" where
  "Context_exec_with_tempfile h ctx source st =
     (case mkstemp h (S ''execjs'') (S ''.js'') (fs st) of
        None \<Rightarrow> (Inl FileExistsError, st)
      | Some (filename, f0) \<Rightarrow>
          (case tempfile_body h ctx source filename (st\<lparr>fs := f0\<rparr>) of
             (res, st1) \<Rightarrow>
               (case os_remove filename (fs st1) of
                  None \<Rightarrow> (Inl FileNotFoundError, st1)
                | Some f1 \<Rightarrow> (res, st1\<lparr>fs := f1\<rparr>))))"

text \<open>\<open>_exec_\<close>: the header, the choice of the delivery mode, the extraction.\<close>

definition Context_exec :: "host \<Rightarrow> Context \<Rightarrow> pystr \<Rightarrow> state \<Rightarrow> (error + json) \<times> state" where
  "Context_exec h ctx source0 st =
     (let source = (if ctx_source ctx \<noteq> [] then ctx_source ctx @ [10] @ source0 else source0)
      in case (if ctx_tempfile ctx then Context_exec_with_tempfile h ctx source st
               else if ctx_session ctx \<noteq> None then Context_exec_with_session h ctx source st
               else Context_exec_with_pipe h ctx source st) of
           (Inl e, st1) \<Rightarrow> (Inl e, st1)
         | (Inr output, st1) \<Rightarrow> (extract_result h output, st1))"




section \<open>Example values\<close>

text \<open>
  A host for the examples. It is not Windows, \<open>PATH\<close> is \<open>/usr/bin\<close>, where
  \<open>deno\<close> and \<open>js\<close> are regular files with mode \<open>0o100755\<close>. Its engine ends with
  status 0 and prints the program it was given, on standard input or else in the file
  named by its last argument. Its interactive child answers every submission with the
  line \<open>["ok",42]\<close>, a line with the end marker and a prompt. Its codecs change
  nothing, and its decoder knows the two result lines \<open>["ok",42]\<close> and \<open>["err"]\<close>.
\<close>

definition example_loads :: "pystr \<Rightarrow> json option" where
  "example_loads s =
     (if s = [91, 34, 111, 107, 34, 44, 52, 50, 93]
      then Some (JArray [JString (S ''ok''), JInt 42])
      else if s = [91, 34, 101, 114, 114, 34, 93]
      then Some (JArray [JString (S ''err'')])
      else None)"

definition example_host :: host where
  "example_host =
     \<lparr>is_windows = False,
      environ = (\<lambda>k. if k = S ''PATH'' then Some (S ''/usr/bin'') else None),
      pathsep = 58,
      path_join = (\<lambda>a b. a @ [47] @ b),
      os_stat = (\<lambda>p. if p = S ''/usr/bin/deno'' \<or> p = S ''/usr/bin/js'' then Some 33261 else None),
      linesep = [10],
      tempdir = S ''/tmp'',
      candidate_names = [S ''k3x9'', S ''q7w2''],
      encode = (\<lambda>enc s. Some s),
      decode = Some,
      json_loads = example_loads,
      Popen = (\<lambda>argv cwd stdin files.
                 Some \<lparr>returncode = 0,
                       stdoutdata = (case stdin of
                                       Some t \<Rightarrow> t
                                     | None \<Rightarrow> (case rev argv of
                                                  [] \<Rightarrow> []
                                                | a # _ \<Rightarrow> (case files a of None \<Rightarrow> [] | Some b \<Rightarrow> b))),
                       stderrdata = []\<rparr>),
      startup = (\<lambda>cmd. Some (S ''> '')),
      repl = (\<lambda>cmd inputs. [91, 34, 111, 107, 34, 44, 52, 50, 93] @ [10]
                              @ S ''//!!@@##'' @ [10] @ S ''> ''),
      encode_unicode_codepoints = (\<lambda>s. s),
      json2_source = []\<rparr>"

definition example_runtime :: ExternalRuntime where
  "example_runtime =
     \<lparr>rt_name = S ''Deno'', rt_command = [S ''deno''],
      rt_runner_source = S ''print('' @ [10] @ S ''#{source}'' @ [10] @ S '')'', rt_encoding = S ''UTF-8'',
      rt_tempfile = False, rt_session = None, rt_prompt = S ''> '',
      rt_binary_cache = Some (Some [S ''/usr/bin/deno'']), rt_available = True\<rparr>"

definition example_state :: state where
  "example_state =
     \<lparr>runtime = example_runtime, fs = (\<lambda>p. None),
      sessions = (\<lambda>sid. \<lparr>child_cmd = [], sent = [], buffer = [], delaybeforesend = True\<rparr>),
      next_session = 0\<rparr>"

definition example_context :: Context where
  "example_context = \<lparr>ctx_source = [], ctx_cwd = None, ctx_tempfile = False, ctx_session = None\<rparr>"


section \<open>Evaluation rules\<close>

declare to_hex.simps [simp del]





section \<open>Facts about \<open>_binary\<close> and the exit status check\<close>





lemma binary_frame:
  "ExternalRuntime_binary h rt = (r, rt1) \<Longrightarrow>
     rt1 = rt\<lparr>rt_binary_cache := rt_binary_cache rt1\<rparr>"
  by (auto simp: ExternalRuntime_binary_def split: option.splits sum.splits)

lemma binary_runner_source:
  "ExternalRuntime_binary h rt = (r, rt1) \<Longrightarrow> rt_runner_source rt1 = rt_runner_source rt"
  by (drule binary_frame)
     (metis ExternalRuntime.select_convs(3) ExternalRuntime.surjective
        ExternalRuntime.update_convs(8))

lemma binary_encoding:
  "ExternalRuntime_binary h rt = (r, rt1) \<Longrightarrow> rt_encoding rt1 = rt_encoding rt"
  by (drule binary_frame)
     (metis ExternalRuntime.select_convs(4) ExternalRuntime.surjective
        ExternalRuntime.update_convs(8))








lemma concat_splitlines: "concat (splitlines s) = filter (\<lambda>c. \<not> is_linebreak c) s"
proof (induction s rule: splitlines.induct)
  case 1
  then show ?case by simp
next
  case (2 c cs)
  show ?case
  proof (cases "c = 13")
    case True
    then show ?thesis using 2
      by (cases cs) (auto simp: is_linebreak_def)
  next
    case False
    show ?thesis
    proof (cases "is_linebreak c")
      case True
      then show ?thesis using False 2 by simp
    next
      case nl: False
      then show ?thesis using False 2
        by (cases "splitlines cs") auto
    qed
  qed
qed

lemma pipe_result:
  assumes "ExternalRuntime_binary h (runtime st) = (Inr (Some (cmd0 # args)), rt1)"
  shows "fst (Context_exec_with_pipe h ctx source st) =
     (case Popen h (cmd0 # args) (ctx_cwd ctx)
             (Some (pipe_input cmd0 (compile_source h st source))) (fs st) of
        None \<Rightarrow> Inl OSError
      | Some p \<Rightarrow>
          if returncode p \<noteq> 0
          then Inl (ProcessExitedWithNonZeroStatus (returncode p) (stdoutdata p) (stderrdata p))
          else Inr (stdoutdata p))"
  using assms binary_runner_source[OF assms]
  by (auto simp: Context_exec_with_pipe_def Let_def compile_source_def fail_on_non_zero_status_def
      split: option.splits)

lemmas example_eval =
  example_host_def example_runtime_def example_state_def example_context_def
  S_def startswith_def ExternalRuntime_binary_def compile_source_def Context_compile_def
  replacements_def




lemma startswith_iff: "startswith s p \<longleftrightarrow> (\<exists>r. s = p @ r)"
proof
  assume "startswith s p"
  then have "s = p @ drop (length p) s"
    unfolding startswith_def by (metis append_take_drop_id)
  then show "\<exists>r. s = p @ r" ..
next
  assume "\<exists>r. s = p @ r"
  then show "startswith s p" unfolding startswith_def by auto
qed

lemma contains_iff: "contains s p \<longleftrightarrow> (\<exists>a b. s = a @ p @ b)"
proof (induction s)
  case Nil
  then show ?case by simp
next
  case (Cons c cs)
  show ?case
  proof
    assume "contains (c # cs) p"
    then consider "startswith (c # cs) p" | "contains cs p" by auto
    then show "\<exists>a b. c # cs = a @ p @ b"
    proof cases
      case 1
      then obtain r where "c # cs = p @ r" unfolding startswith_iff ..
      then have "c # cs = [] @ p @ r" by simp
      then show ?thesis by blast
    next
      case 2
      then obtain a b where "cs = a @ p @ b" using Cons.IH by blast
      then have "c # cs = (c # a) @ p @ b" by simp
      then show ?thesis by blast
    qed
  next
    assume "\<exists>a b. c # cs = a @ p @ b"
    then obtain a b where ab: "c # cs = a @ p @ b" by blast
    show "contains (c # cs) p"
    proof (cases a)
      case Nil
      then have "startswith (c # cs) p" using ab unfolding startswith_iff by auto
      then show ?thesis by simp
    next
      case (Cons x a')
      then have "cs = a' @ p @ b" using ab by simp
      then have "contains cs p" using Cons.IH by blast
      then show ?thesis by simp
    qed
  qed
qed

lemma contains_length: "contains s p \<Longrightarrow> length p \<le> length s"
  unfolding contains_iff by auto

lemma startswith_append: "startswith x p \<Longrightarrow> startswith (x @ z) p"
  unfolding startswith_iff by auto


lemma find_first_Some:
  "find_first pat s = Some (b, a) \<Longrightarrow> s = b @ pat @ a"
proof (induction s arbitrary: b)
  case Nil
  then show ?case by (simp split: if_splits)
next
  case (Cons c cs)
  show ?case
  proof (cases "startswith (c # cs) pat")
    case True
    then have "c # cs = pat @ drop (length pat) (c # cs)"
      unfolding startswith_def by (metis append_take_drop_id)
    moreover have "b = []" "a = drop (length pat) (c # cs)"
      using Cons.prems True by simp_all
    ultimately show ?thesis by simp
  next
    case False
    then obtain b' where b': "find_first pat cs = Some (b', a)" "b = c # b'"
      using Cons.prems by (auto split: option.splits)
    then show ?thesis using Cons.IH[OF b'(1)] by simp
  qed
qed

lemma find_first_None: "find_first pat s = None \<longleftrightarrow> \<not> contains s pat"
proof (induction s)
  case Nil
  then show ?case by simp
next
  case (Cons c cs)
  show ?case
  proof (cases "startswith (c # cs) pat")
    case True
    then show ?thesis by simp
  next
    case False
    then show ?thesis using Cons.IH
      by (cases "find_first pat cs") auto
  qed
qed

lemma find_first_earliest:
  "find_first pat s = Some (b, a) \<Longrightarrow> pat \<noteq> [] \<Longrightarrow> \<not> contains (butlast (b @ pat)) pat"
proof (induction s arbitrary: b)
  case Nil
  then show ?case by (simp split: if_splits)
next
  case (Cons c cs)
  show ?case
  proof (cases "startswith (c # cs) pat")
    case True
    then have "b = []" using Cons.prems by simp
    moreover have "length (butlast pat) < length pat" using Cons.prems(2) by simp
    ultimately show ?thesis using contains_length[of "butlast pat" pat] by auto
  next
    case False
    then obtain b' where b': "find_first pat cs = Some (b', a)" "b = c # b'"
      using Cons.prems by (auto split: option.splits)
    have cs: "cs = b' @ pat @ a" using find_first_Some[OF b'(1)] .
    have ih: "\<not> contains (butlast (b' @ pat)) pat" using Cons.IH[OF b'(1) Cons.prems(2)] .
    have bl: "butlast (b @ pat) = c # butlast (b' @ pat)"
      using b'(2) Cons.prems(2) by simp
    have "\<not> startswith (c # butlast (b' @ pat)) pat"
    proof
      assume "startswith (c # butlast (b' @ pat)) pat"
      then have "startswith ((c # butlast (b' @ pat)) @ [last pat] @ a) pat"
        by (rule startswith_append)
      moreover have "butlast (b' @ pat) @ [last pat] = b' @ pat"
        using Cons.prems(2) by (metis append_butlast_last_id append_is_Nil_conv last_appendR)
      then have "(c # butlast (b' @ pat)) @ [last pat] @ a = c # cs"
        using cs by simp
      ultimately show False using False by simp
    qed
    then show ?thesis using ih bl by simp
  qed
qed

lemma end_str_nonempty: "end_str \<noteq> []"
  by (simp add: end_str_def S_def)


lemma exec_session_mode:
  assumes "\<not> ctx_tempfile ctx" "ctx_session ctx = Some sid"
  shows "fst (Context_exec h ctx source st) =
     (case fst (Context_exec_with_session h ctx
                  (if ctx_source ctx \<noteq> [] then ctx_source ctx @ [10] @ source else source)
                  st) of
        Inl e \<Rightarrow> Inl e
      | Inr output \<Rightarrow> extract_result h output)"
  using assms by (auto simp: Context_exec_def Let_def split: prod.splits sum.splits)









lemma contains_Cons: "contains cs p \<Longrightarrow> contains (c # cs) p"
  by simp




















section \<open>The claims\<close>


text \<open>
  C8. In pipe mode the text written to the standard input of the process is the compiled
  program with all its lines concatenated, nothing put between them, when the path of the
  resolved executable contains \<open>deno\<close>, and the compiled program unchanged for every
  other executable. The concatenation of the lines is the program without its line
  boundary characters, so it is a single line.
\<close>

theorem C8_pipe_flatten:
  assumes "ExternalRuntime_binary h (runtime st) = (Inr (Some (cmd0 # args)), rt1)"
  shows "fst (Context_exec_with_pipe h ctx source st) =
     (case Popen h (cmd0 # args) (ctx_cwd ctx)
             (Some (if contains cmd0 (S ''deno'')
                    then concat (splitlines (compile_source h st source))
                    else compile_source h st source)) (fs st) of
        None \<Rightarrow> Inl OSError
      | Some p \<Rightarrow>
          if returncode p \<noteq> 0
          then Inl (ProcessExitedWithNonZeroStatus (returncode p) (stdoutdata p) (stderrdata p))
          else Inr (stdoutdata p))
     \<and> concat (splitlines (compile_source h st source))
         = filter (\<lambda>c. \<not> is_linebreak c) (compile_source h st source)"
  using pipe_result[OF assms, of ctx source] concat_splitlines
  by (simp add: pipe_input_def)

theorem C8_witness:
  "ExternalRuntime_binary example_host (runtime example_state)
     = (Inr (Some [S ''/usr/bin/deno'']), example_runtime)
   \<and> fst (Context_exec_with_pipe example_host example_context (S ''1+1'') example_state)
       = Inr (S ''print(1+1)'')
   \<and> compile_source example_host example_state (S ''1+1'')
       = S ''print('' @ [10] @ S ''1+1'' @ [10] @ S '')''"
proof -
  have b: "ExternalRuntime_binary example_host (runtime example_state)
     = (Inr (Some [S ''/usr/bin/deno'']), example_runtime)"
    by (simp add: example_eval)
  have c: "compile_source example_host example_state (S ''1+1'')
       = S ''print('' @ [10] @ S ''1+1'' @ [10] @ S '')''"
    by (simp add: example_eval)
  have d: "contains (S ''/usr/bin/deno'') (S ''deno'')"
    by (simp add: S_def startswith_def)
  show ?thesis
    using C8_pipe_flatten[OF b, of example_context "S ''1+1''"] b c d
    by (simp add: example_host_def example_state_def example_context_def S_def is_linebreak_def)
qed



text \<open>
  C6. For a statement executed on a context with a session: the text sent is the
  compiled statement, a line feed and the end marker \<open>//!!@@##\<close> (the same marker for
  every statement), as one \<open>sendline\<close>. The call returns when the marker occurs in the
  output stream of the child, that is the output not yet consumed followed by what the
  child prints after this submission, and fails with the timeout of \<open>expect\<close> when it
  does not occur. Its result is the part of the stream before the first occurrence of
  the marker (decoded when the platform is not Windows), what follows the marker stays
  in the buffer, and in \<open>_exec_\<close> this result is what the result extractor receives.
\<close>

theorem C6_session_exchange:
  assumes "ctx_session ctx = Some sid"
  shows
    "let submission = compile_source h st source @ [10] @ end_str @ linesep h;
         child = sessions st sid;
         stream = buffer child @ repl h (child_cmd child) (sent child @ [submission]);
         result = Context_exec_with_session h ctx source st
     in end_str = S ''//!!@@##''
        \<and> sent (sessions (snd result) sid) = sent child @ [submission]
        \<and> (case find_first end_str stream of
              None \<Rightarrow> \<not> contains stream end_str \<and> fst result = Inl ExpectTimeout
            | Some (before, after) \<Rightarrow>
                stream = before @ end_str @ after
                \<and> \<not> contains (butlast (before @ end_str)) end_str
                \<and> fst result =
                    (if is_windows h then Inr before
                     else (case decode h before of
                             None \<Rightarrow> Inl UnicodeDecodeError
                           | Some decoded \<Rightarrow> Inr decoded))
                \<and> buffer (sessions (snd result) sid) = after)
        \<and> (\<not> ctx_tempfile ctx \<longrightarrow>
             fst (Context_exec h ctx source st) =
               (case fst (Context_exec_with_session h ctx
                            (if ctx_source ctx \<noteq> [] then ctx_source ctx @ [10] @ source
                             else source) st) of
                  Inl e \<Rightarrow> Inl e
                | Inr output \<Rightarrow> extract_result h output))"
proof -
  define submission where "submission = compile_source h st source @ [10] @ end_str @ linesep h"
  define stream where "stream = buffer (sessions st sid)
     @ repl h (child_cmd (sessions st sid)) (sent (sessions st sid) @ [submission])"
  define st1 where "st1 = sendline h sid (compile_source h st source @ [10] @ end_str) st"
  have buf: "buffer (sessions st1 sid) = stream"
    and snt: "sent (sessions st1 sid) = sent (sessions st sid) @ [submission]"
    by (simp_all add: st1_def sendline_def Let_def stream_def submission_def)
  have run: "Context_exec_with_session h ctx source st =
     (case expect sid end_str st1 of
        (None, st2) \<Rightarrow> (Inl ExpectTimeout, st2)
      | (Some before, st2) \<Rightarrow>
          (if is_windows h then (Inr before, st2)
           else (case decode h before of
                   None \<Rightarrow> (Inl UnicodeDecodeError, st2)
                 | Some decoded \<Rightarrow> (Inr decoded, st2))))"
    using assms by (simp add: Context_exec_with_session_def Let_def st1_def)
  have sent_part: "sent (sessions (snd (Context_exec_with_session h ctx source st)) sid)
                     = sent (sessions st sid) @ [submission]"
    using snt by (auto simp: run expect_def split: option.splits prod.splits)
  have case_part: "(case find_first end_str stream of
              None \<Rightarrow> \<not> contains stream end_str
                        \<and> fst (Context_exec_with_session h ctx source st) = Inl ExpectTimeout
            | Some (before, after) \<Rightarrow>
                stream = before @ end_str @ after
                \<and> \<not> contains (butlast (before @ end_str)) end_str
                \<and> fst (Context_exec_with_session h ctx source st) =
                    (if is_windows h then Inr before
                     else (case decode h before of
                             None \<Rightarrow> Inl UnicodeDecodeError
                           | Some decoded \<Rightarrow> Inr decoded))
                \<and> buffer (sessions (snd (Context_exec_with_session h ctx source st)) sid)
                    = after)"
  proof (cases "find_first end_str stream")
    case None
    then show ?thesis
      using find_first_None[of end_str stream] by (simp add: run expect_def buf)
  next
    case (Some ba)
    obtain before after where ba: "ba = (before, after)" by (cases ba)
    have ff: "find_first end_str stream = Some (before, after)" using Some ba by simp
    have a: "stream = before @ end_str @ after" using find_first_Some[OF ff] .
    have b: "\<not> contains (butlast (before @ end_str)) end_str"
      using find_first_earliest[OF ff end_str_nonempty] .
    have r: "fst (Context_exec_with_session h ctx source st) =
                    (if is_windows h then Inr before
                     else (case decode h before of
                             None \<Rightarrow> Inl UnicodeDecodeError
                           | Some decoded \<Rightarrow> Inr decoded))"
      by (simp add: run expect_def buf ff split: option.splits)
    have bu: "buffer (sessions (snd (Context_exec_with_session h ctx source st)) sid) = after"
      by (simp add: run expect_def buf ff split: option.splits)
    show ?thesis
      unfolding ff option.case prod.case using a b r bu by blast
  qed
  have exec_part: "\<not> ctx_tempfile ctx \<longrightarrow>
             fst (Context_exec h ctx source st) =
               (case fst (Context_exec_with_session h ctx
                            (if ctx_source ctx \<noteq> [] then ctx_source ctx @ [10] @ source
                             else source) st) of
                  Inl e \<Rightarrow> Inl e
                | Inr output \<Rightarrow> extract_result h output)"
    using exec_session_mode[OF _ assms] by blast
  show ?thesis
    unfolding Let_def
    using sent_part case_part exec_part end_str_def
    unfolding submission_def stream_def
    by blast
qed


theorem C6_witness:
  "ctx_session (example_context\<lparr>ctx_session := Some 0\<rparr>) = Some 0
   \<and> fst (Context_exec_with_session example_host (example_context\<lparr>ctx_session := Some 0\<rparr>)
           (S ''1+1'') example_state)
       = Inr ([91, 34, 111, 107, 34, 44, 52, 50, 93] @ [10])
   \<and> sent (sessions (snd (Context_exec_with_session example_host
                              (example_context\<lparr>ctx_session := Some 0\<rparr>)
                              (S ''1+1'') example_state)) 0)
       = [S ''print('' @ [10] @ S ''1+1'' @ [10] @ S '')'' @ [10] @ S ''//!!@@##'' @ [10]]
   \<and> buffer (sessions (snd (Context_exec_with_session example_host
                              (example_context\<lparr>ctx_session := Some 0\<rparr>)
                              (S ''1+1'') example_state)) 0)
       = [10] @ S ''> ''
   \<and> fst (Context_exec example_host (example_context\<lparr>ctx_session := Some 0\<rparr>)
           (S ''1+1'') example_state)
       = Inr (JInt 42)"
proof -
  let ?ctx = "example_context\<lparr>ctx_session := Some 0\<rparr>"
  have s: "ctx_session ?ctx = Some 0" by simp
  have ff: "find_first end_str
              (buffer (sessions example_state 0)
               @ repl example_host (child_cmd (sessions example_state 0))
                   (sent (sessions example_state 0)
                    @ [compile_source example_host example_state (S ''1+1'')
                       @ [10] @ end_str @ linesep example_host]))
            = Some ([91, 34, 111, 107, 34, 44, 52, 50, 93] @ [10], [10] @ S ''> '')"
    by (simp add: example_eval end_str_def)
  have c: "compile_source example_host example_state (S ''1+1'')
       = S ''print('' @ [10] @ S ''1+1'' @ [10] @ S '')''"
    by (simp add: example_eval)
  have x: "extract_result example_host ([91, 34, 111, 107, 34, 44, 52, 50, 93] @ [10])
             = Inr (JInt 42)"
    by (simp add: extract_result_def normalize_newlines_def py_replace_def result_lines_def
          startswith_def is_linebreak_def interpret_result_def example_host_def
          example_loads_def S_def Let_def)
  have t: "\<not> ctx_tempfile ?ctx" "ctx_source ?ctx = []"
    by (simp_all add: example_context_def)
  from C6_session_exchange[OF s, of example_host example_state "S ''1+1''"]
  show ?thesis
    unfolding Let_def ff option.case prod.case
    using t x c
    by (simp add: example_host_def example_state_def end_str_def)
qed








end
